theory Spec2Isabelle
  imports Main
begin

section \<open>Syntax trees\<close>

text \<open>
  A Tree-sitter node as \<open>code_analyzer.py\<close> reads it: its type tag, its byte range in
  the source text, the rows of its start and end points (0-based) and its ordered
  children. Anonymous tokens (\<open>def\<close>, \<open>(\<close>, \<open>:\<close>) are children too; their type tag
  is the token text.
\<close>

datatype ts_node =
  Node (ntype: string) (start_byte: nat) (end_byte: nat)
       (start_row: nat) (end_row: nat) (children: "ts_node list")

text \<open>
  The slice \<open>code[a:b]\<close>. Python clamps both ends to the length of the text and gives the
  empty string when \<open>b \<le> a\<close>; \<open>take\<close> and \<open>drop\<close> do the same. The offsets of a node
  are byte offsets; in ASCII text, which the examples below are, they are the character
  offsets that the slice of a Python string counts.
\<close>

definition slice :: "string \<Rightarrow> nat \<Rightarrow> nat \<Rightarrow> string" where
  "slice code a b = take (b - a) (drop a code)"

definition node_text :: "string \<Rightarrow> ts_node \<Rightarrow> string" where
  "node_text code n = slice code (start_byte n) (end_byte n)"

section \<open>Entities extracted from one file\<close>

record method_info =
  m_name :: string
  m_line :: nat

record function_entity =
  fe_type :: string
  fe_name :: string
  fe_params :: "string list"
  fe_line_start :: nat
  fe_line_end :: nat
  fe_calls :: "string list"

record class_entity =
  ce_type :: string
  ce_name :: string
  ce_methods :: "method_info list"
  ce_bases :: "string list"
  ce_line_start :: nat
  ce_line_end :: nat

record import_record =
  ir_type :: string
  ir_statement :: string
  ir_line :: nat

text \<open>The three lists a \<open>PythonAnalyzer\<close> object accumulates.\<close>

record analyzer =
  an_functions :: "function_entity list"
  an_classes :: "class_entity list"
  an_imports :: "import_record list"

section \<open>PythonAnalyzer\<close>

text \<open>
  The loop \<open>for child in node.children: if child.type == 'identifier': name = ...; break\<close>
  of \<open>_extract_function\<close>, \<open>_extract_class\<close> and \<open>_extract_methods\<close>; the third argument
  is the value the name has before the loop.
\<close>

fun first_identifier :: "ts_node list \<Rightarrow> string \<Rightarrow> string \<Rightarrow> string" where
  "first_identifier [] code name = name"
| "first_identifier (child # rest) code name =
     (if ntype child = ''identifier'' then node_text code child
      else first_identifier rest code name)"

text \<open>\<open>_extract_params\<close> and \<open>_extract_bases\<close>: the identifier children, appended in order.\<close>

fun identifier_children :: "ts_node list \<Rightarrow> string \<Rightarrow> string list \<Rightarrow> string list" where
  "identifier_children [] code acc = acc"
| "identifier_children (child # rest) code acc =
     identifier_children rest code
       (if ntype child = ''identifier'' then acc @ [node_text code child] else acc)"

definition extract_params :: "ts_node \<Rightarrow> string \<Rightarrow> string list" where
  "extract_params params_node code = identifier_children (children params_node) code []"

definition extract_bases :: "ts_node \<Rightarrow> string \<Rightarrow> string list" where
  "extract_bases arg_list_node code = identifier_children (children arg_list_node) code []"

text \<open>
  The loops of \<open>_extract_function\<close> and \<open>_extract_class\<close> that look for the first
  \<open>parameters\<close> (or \<open>argument_list\<close>) child and stop there.
\<close>

fun first_params :: "ts_node list \<Rightarrow> string \<Rightarrow> string list \<Rightarrow> string list" where
  "first_params [] code params = params"
| "first_params (child # rest) code params =
     (if ntype child = ''parameters'' then extract_params child code
      else first_params rest code params)"

fun first_bases :: "ts_node list \<Rightarrow> string \<Rightarrow> string list \<Rightarrow> string list" where
  "first_bases [] code bases = bases"
| "first_bases (child # rest) code bases =
     (if ntype child = ''argument_list'' then extract_bases child code
      else first_bases rest code bases)"

text \<open>
  \<open>_find_function_calls\<close>: the inner \<open>traverse\<close> appends to the list \<open>calls\<close> of the
  enclosing scope, so the list is threaded through the recursion. At a \<open>call\<close> node the
  text of the first child tagged \<open>identifier\<close> or \<open>attribute\<close> is appended; then every
  child is traversed, whatever the node was.
\<close>

fun call_name :: "ts_node list \<Rightarrow> string \<Rightarrow> string list \<Rightarrow> string list" where
  "call_name [] code calls = calls"
| "call_name (child # rest) code calls =
     (if ntype child = ''identifier'' \<or> ntype child = ''attribute''
      then calls @ [node_text code child]
      else call_name rest code calls)"

fun traverse :: "string \<Rightarrow> ts_node \<Rightarrow> string list \<Rightarrow> string list"
  and traverse_children :: "string \<Rightarrow> ts_node list \<Rightarrow> string list \<Rightarrow> string list" where
  "traverse code (Node t sb eb sr er cs) calls =
     traverse_children code cs
       (if t = ''call'' then call_name cs code calls else calls)"
| "traverse_children code [] calls = calls"
| "traverse_children code (child # rest) calls =
     traverse_children code rest (traverse code child calls)"

definition find_function_calls :: "ts_node \<Rightarrow> string \<Rightarrow> string list" where
  "find_function_calls node code = traverse code node []"

text \<open>
  \<open>_extract_methods\<close>: for every \<open>block\<close> child of the class node, every
  \<open>function_definition\<close> child of that block gives a record of its name and line.
\<close>

fun block_methods :: "ts_node list \<Rightarrow> string \<Rightarrow> method_info list \<Rightarrow> method_info list" where
  "block_methods [] code methods = methods"
| "block_methods (stmt # rest) code methods =
     block_methods rest code
       (if ntype stmt = ''function_definition''
        then methods @ [\<lparr>m_name = first_identifier (children stmt) code '''',
                         m_line = start_row stmt + 1\<rparr>]
        else methods)"

fun class_methods :: "ts_node list \<Rightarrow> string \<Rightarrow> method_info list \<Rightarrow> method_info list" where
  "class_methods [] code methods = methods"
| "class_methods (child # rest) code methods =
     class_methods rest code
       (if ntype child = ''block'' then block_methods (children child) code methods
        else methods)"

definition extract_methods :: "ts_node \<Rightarrow> string \<Rightarrow> method_info list" where
  "extract_methods class_node code = class_methods (children class_node) code []"

text \<open>The record \<open>_extract_function\<close> builds for a node.\<close>

definition function_info :: "ts_node \<Rightarrow> string \<Rightarrow> function_entity" where
  "function_info node code =
     \<lparr>fe_type = ''function'',
      fe_name = first_identifier (children node) code '''',
      fe_params = first_params (children node) code [],
      fe_line_start = start_row node + 1,
      fe_line_end = end_row node + 1,
      fe_calls = find_function_calls node code\<rparr>"

definition extract_function :: "ts_node \<Rightarrow> string \<Rightarrow> analyzer \<Rightarrow> analyzer" where
  "extract_function node code s = s\<lparr>an_functions := an_functions s @ [function_info node code]\<rparr>"

text \<open>The record \<open>_extract_class\<close> builds for a node.\<close>

definition class_info :: "ts_node \<Rightarrow> string \<Rightarrow> class_entity" where
  "class_info node code =
     \<lparr>ce_type = ''class'',
      ce_name = first_identifier (children node) code '''',
      ce_methods = extract_methods node code,
      ce_bases = first_bases (children node) code [],
      ce_line_start = start_row node + 1,
      ce_line_end = end_row node + 1\<rparr>"

definition extract_class :: "ts_node \<Rightarrow> string \<Rightarrow> analyzer \<Rightarrow> analyzer" where
  "extract_class node code s = s\<lparr>an_classes := an_classes s @ [class_info node code]\<rparr>"

definition extract_import :: "ts_node \<Rightarrow> string \<Rightarrow> analyzer \<Rightarrow> analyzer" where
  "extract_import node code s =
     s\<lparr>an_imports := an_imports s @
        [\<lparr>ir_type = ''import'', ir_statement = node_text code node,
          ir_line = start_row node + 1\<rparr>]\<rparr>"

text \<open>
  \<open>_traverse_node\<close>: dispatch on the type tag, then recurse into every child. The
  analyzer's lists are the state.
\<close>

definition visit :: "ts_node \<Rightarrow> string \<Rightarrow> analyzer \<Rightarrow> analyzer" where
  "visit node code s =
     (if ntype node = ''function_definition'' then extract_function node code s
      else if ntype node = ''class_definition'' then extract_class node code s
      else if ntype node = ''import_statement'' \<or> ntype node = ''import_from_statement''
        then extract_import node code s
      else s)"

fun traverse_node :: "ts_node \<Rightarrow> string \<Rightarrow> analyzer \<Rightarrow> analyzer"
  and traverse_nodes :: "ts_node list \<Rightarrow> string \<Rightarrow> analyzer \<Rightarrow> analyzer" where
  "traverse_node (Node t sb eb sr er cs) code s =
     traverse_nodes cs code (visit (Node t sb eb sr er cs) code s)"
| "traverse_nodes [] code s = s"
| "traverse_nodes (child # rest) code s = traverse_nodes rest code (traverse_node child code s)"

text \<open>
  What \<open>CodeParser.parse_file\<close> returns on success. The \<open>tree\<close> entry is left out: the
  analyzer reads only \<open>root_node\<close>, which is \<open>tree.root_node\<close>.
\<close>

record parsed_data =
  pd_file_path :: string
  pd_language :: string
  pd_code :: string
  pd_root_node :: ts_node

text \<open>
  The dictionary \<open>analyze\<close> returns and \<open>add_file_analysis\<close> reads with \<open>.get\<close>: every
  key may be absent (\<open>analyze\<close> returns \<open>{}\<close> for a file that is not Python).
\<close>

record analysis =
  a_functions :: "function_entity list option"
  a_classes :: "class_entity list option"
  a_imports :: "import_record list option"
  a_file_path :: "string option"

definition empty_analysis :: analysis where
  "empty_analysis =
     \<lparr>a_functions = None, a_classes = None, a_imports = None, a_file_path = None\<rparr>"

definition analyze :: "parsed_data option \<Rightarrow> analysis" where
  "analyze parsed =
     (case parsed of
        None \<Rightarrow> empty_analysis
      | Some pd \<Rightarrow>
          if pd_language pd \<noteq> ''python'' then empty_analysis
          else
            let s = traverse_node (pd_root_node pd) (pd_code pd)
                      \<lparr>an_functions = [], an_classes = [], an_imports = []\<rparr>
            in \<lparr>a_functions = Some (an_functions s), a_classes = Some (an_classes s),
                a_imports = Some (an_imports s), a_file_path = Some (pd_file_path pd)\<rparr>)"

section \<open>CodeParser\<close>

text \<open>
  What \<open>CodeParser\<close> takes from outside the repository: \<open>Path(p).suffix\<close> and
  \<open>str.lower\<close> of the standard library, and reading a file as UTF-8 text (\<open>None\<close> when
  \<open>open\<close> or \<open>read\<close> raises).
\<close>

record platform =
  path_suffix :: "string \<Rightarrow> string"
  str_lower :: "string \<Rightarrow> string"
  read_text :: "string \<Rightarrow> string option"

text \<open>
  \<open>self.parsers\<close>: the languages whose grammar was initialised, each with its parser. A
  parser gives the root node of the tree, or \<open>None\<close> when \<open>parse\<close> raises.
\<close>

type_synonym parsers = "string \<Rightarrow> (string \<Rightarrow> ts_node option) option"

definition ext_map :: "string \<Rightarrow> string option" where
  "ext_map = map_of
     [(''.py'', ''python''), (''.js'', ''javascript''), (''.ts'', ''javascript''),
      (''.jsx'', ''javascript''), (''.jac'', ''python'')]"

definition detect_language :: "platform \<Rightarrow> string \<Rightarrow> string option" where
  "detect_language pf file_path = ext_map (str_lower pf (path_suffix pf file_path))"

text \<open>
  \<open>parse_file\<close>: the guard \<open>not language or language not in self.parsers\<close> returns
  \<open>None\<close> before the \<open>try\<close>; every exception inside the \<open>try\<close> is caught and gives
  \<open>None\<close> as well.
\<close>

definition parse_file :: "platform \<Rightarrow> parsers \<Rightarrow> string \<Rightarrow> parsed_data option" where
  "parse_file pf ps file_path =
     (case detect_language pf file_path of
        None \<Rightarrow> None
      | Some language \<Rightarrow>
          if language = [] then None
          else
            (case ps language of
               None \<Rightarrow> None
             | Some parser \<Rightarrow>
                 (case read_text pf file_path of
                    None \<Rightarrow> None
                  | Some code \<Rightarrow>
                      (case parser code of
                         None \<Rightarrow> None
                       | Some root \<Rightarrow>
                           Some \<lparr>pd_file_path = file_path, pd_language = language,
                                 pd_code = code, pd_root_node = root\<rparr>))))"

section \<open>CodeContextGraph\<close>

text \<open>
  A node of the graph is a dictionary whose \<open>type\<close> is a string; a function node has the
  keys \<open>params\<close> and \<open>calls\<close>, a class node has \<open>methods\<close> and \<open>bases\<close>. A key a node
  does not have is \<open>None\<close>.
\<close>

record graph_node =
  n_id :: string
  n_type :: string
  n_name :: string
  n_file :: string
  n_line_start :: nat
  n_line_end :: nat
  n_params :: "string list option"
  n_calls :: "string list option"
  n_methods :: "method_info list option"
  n_bases :: "string list option"

record graph_edge =
  e_from :: string
  e_to :: string
  e_type :: string
  e_file :: string

record file_entry =
  f_functions :: "string list"
  f_classes :: "string list"

text \<open>
  \<open>file_map\<close> is a dictionary: an association list in insertion order, in which
  assigning to a key that is present replaces its value in place.
\<close>

record ccg =
  g_nodes :: "graph_node list"
  g_edges :: "graph_edge list"
  g_file_map :: "(string \<times> file_entry) list"

definition init_graph :: ccg where
  "init_graph = \<lparr>g_nodes = [], g_edges = [], g_file_map = []\<rparr>"

fun dict_set :: "'k \<Rightarrow> 'v \<Rightarrow> ('k \<times> 'v) list \<Rightarrow> ('k \<times> 'v) list" where
  "dict_set k v [] = [(k, v)]"
| "dict_set k v ((k', v') # rest) =
     (if k' = k then (k, v) # rest else (k', v') # dict_set k v rest)"

definition make_id :: "string \<Rightarrow> string \<Rightarrow> string" where
  "make_id file_path name = file_path @ ''::'' @ name"

definition function_node :: "string \<Rightarrow> function_entity \<Rightarrow> graph_node" where
  "function_node file_path func =
     \<lparr>n_id = make_id file_path (fe_name func), n_type = ''function'',
      n_name = fe_name func, n_file = file_path,
      n_line_start = fe_line_start func, n_line_end = fe_line_end func,
      n_params = Some (fe_params func), n_calls = Some (fe_calls func),
      n_methods = None, n_bases = None\<rparr>"

definition class_node :: "string \<Rightarrow> class_entity \<Rightarrow> graph_node" where
  "class_node file_path cls =
     \<lparr>n_id = make_id file_path (ce_name cls), n_type = ''class'',
      n_name = ce_name cls, n_file = file_path,
      n_line_start = ce_line_start cls, n_line_end = ce_line_end cls,
      n_params = None, n_calls = None,
      n_methods = Some (ce_methods cls), n_bases = Some (ce_bases cls)\<rparr>"

text \<open>The inner loops: one edge per call name, one edge per base name.\<close>

fun add_edges :: "string \<Rightarrow> string \<Rightarrow> string \<Rightarrow> string list \<Rightarrow> ccg \<Rightarrow> ccg" where
  "add_edges node_id ty file_path [] g = g"
| "add_edges node_id ty file_path (target # rest) g =
     add_edges node_id ty file_path rest
       (g\<lparr>g_edges := g_edges g @
           [\<lparr>e_from = node_id, e_to = target, e_type = ty, e_file = file_path\<rparr>]\<rparr>)"

fun add_functions :: "string \<Rightarrow> function_entity list \<Rightarrow> ccg \<Rightarrow> ccg" where
  "add_functions file_path [] g = g"
| "add_functions file_path (func # rest) g =
     add_functions file_path rest
       (add_edges (make_id file_path (fe_name func)) ''calls'' file_path (fe_calls func)
          (g\<lparr>g_nodes := g_nodes g @ [function_node file_path func]\<rparr>))"

fun add_classes :: "string \<Rightarrow> class_entity list \<Rightarrow> ccg \<Rightarrow> ccg" where
  "add_classes file_path [] g = g"
| "add_classes file_path (cls # rest) g =
     add_classes file_path rest
       (add_edges (make_id file_path (ce_name cls)) ''inherits'' file_path (ce_bases cls)
          (g\<lparr>g_nodes := g_nodes g @ [class_node file_path cls]\<rparr>))"

definition get_file_path :: "analysis \<Rightarrow> string" where
  "get_file_path a = (case a_file_path a of None \<Rightarrow> ''unknown'' | Some p \<Rightarrow> p)"

definition get_functions :: "analysis \<Rightarrow> function_entity list" where
  "get_functions a = (case a_functions a of None \<Rightarrow> [] | Some fs \<Rightarrow> fs)"

definition get_classes :: "analysis \<Rightarrow> class_entity list" where
  "get_classes a = (case a_classes a of None \<Rightarrow> [] | Some cs \<Rightarrow> cs)"

definition add_file_analysis :: "analysis \<Rightarrow> ccg \<Rightarrow> ccg" where
  "add_file_analysis a g =
     (let file_path = get_file_path a;
          g1 = add_functions file_path (get_functions a) g;
          g2 = add_classes file_path (get_classes a) g1
      in g2\<lparr>g_file_map :=
              dict_set file_path
                \<lparr>f_functions = map fe_name (get_functions a),
                 f_classes = map ce_name (get_classes a)\<rparr>
                (g_file_map g2)\<rparr>)"

text \<open>A run of the analysis: the files' analyses ingested in order, from the empty graph.\<close>

fun ingest_all :: "analysis list \<Rightarrow> ccg \<Rightarrow> ccg" where
  "ingest_all [] g = g"
| "ingest_all (a # rest) g = ingest_all rest (add_file_analysis a g)"

record statistics =
  total_nodes :: nat
  total_edges :: nat
  st_functions :: nat
  st_classes :: nat
  files_analyzed :: nat

definition get_statistics :: "ccg \<Rightarrow> statistics" where
  "get_statistics g =
     \<lparr>total_nodes = length (g_nodes g),
      total_edges = length (g_edges g),
      st_functions = length (filter (\<lambda>n. n_type n = ''function'') (g_nodes g)),
      st_classes = length (filter (\<lambda>n. n_type n = ''class'') (g_nodes g)),
      files_analyzed = length (g_file_map g)\<rparr>"

fun callers_loop :: "graph_edge list \<Rightarrow> string \<Rightarrow> string list \<Rightarrow> string list" where
  "callers_loop [] function_name callers = callers"
| "callers_loop (edge # rest) function_name callers =
     callers_loop rest function_name
       (if e_type edge = ''calls'' \<and> e_to edge = function_name
        then callers @ [e_from edge] else callers)"

definition find_callers :: "ccg \<Rightarrow> string \<Rightarrow> string list" where
  "find_callers g function_name = callers_loop (g_edges g) function_name []"

text \<open>
  \<open>find_callees\<close>: the loop stops at the first node with the name; \<open>node.get('calls', [])\<close>
  is the empty list for a node that has no \<open>calls\<close> key.
\<close>

fun callees_loop :: "graph_node list \<Rightarrow> string \<Rightarrow> string list \<Rightarrow> string list" where
  "callees_loop [] function_name callees = callees"
| "callees_loop (node # rest) function_name callees =
     (if n_name node = function_name
      then (case n_calls node of None \<Rightarrow> [] | Some cs \<Rightarrow> cs)
      else callees_loop rest function_name callees)"

definition find_callees :: "ccg \<Rightarrow> string \<Rightarrow> string list" where
  "find_callees g function_name = callees_loop (g_nodes g) function_name []"

section \<open>What one ingestion appends\<close>

definition call_edges :: "string \<Rightarrow> function_entity \<Rightarrow> graph_edge list" where
  "call_edges file_path func =
     map (\<lambda>target. \<lparr>e_from = make_id file_path (fe_name func), e_to = target,
                     e_type = ''calls'', e_file = file_path\<rparr>) (fe_calls func)"

definition inherit_edges :: "string \<Rightarrow> class_entity \<Rightarrow> graph_edge list" where
  "inherit_edges file_path cls =
     map (\<lambda>target. \<lparr>e_from = make_id file_path (ce_name cls), e_to = target,
                     e_type = ''inherits'', e_file = file_path\<rparr>) (ce_bases cls)"

definition new_nodes :: "analysis \<Rightarrow> graph_node list" where
  "new_nodes a =
     map (function_node (get_file_path a)) (get_functions a) @
     map (class_node (get_file_path a)) (get_classes a)"

definition new_edges :: "analysis \<Rightarrow> graph_edge list" where
  "new_edges a =
     concat (map (call_edges (get_file_path a)) (get_functions a)) @
     concat (map (inherit_edges (get_file_path a)) (get_classes a))"

text \<open>The entities of an analysis, each as the pair of its file path and its name.\<close>

definition entity_names :: "analysis \<Rightarrow> string list" where
  "entity_names a = map fe_name (get_functions a) @ map ce_name (get_classes a)"

definition entity_keys :: "analysis \<Rightarrow> (string \<times> string) list" where
  "entity_keys a = map (\<lambda>name. (get_file_path a, name)) (entity_names a)"

section \<open>The nodes of a tree, in the order of the traversal\<close>

fun subnodes :: "ts_node \<Rightarrow> ts_node list"
  and subnodes_list :: "ts_node list \<Rightarrow> ts_node list" where
  "subnodes (Node t sb eb sr er cs) = Node t sb eb sr er cs # subnodes_list cs"
| "subnodes_list [] = []"
| "subnodes_list (child # rest) = subnodes child @ subnodes_list rest"

text \<open>What one node adds to the list of calls, and the record of one method.\<close>

definition node_calls :: "string \<Rightarrow> ts_node \<Rightarrow> string list" where
  "node_calls code n = (if ntype n = ''call'' then call_name (children n) code [] else [])"

definition method_record :: "string \<Rightarrow> ts_node \<Rightarrow> method_info" where
  "method_record code stmt =
     \<lparr>m_name = first_identifier (children stmt) code '''', m_line = start_row stmt + 1\<rparr>"

section \<open>Example files\<close>

text \<open>
  The syntax trees of three small Python files, as the Python grammar of Tree-sitter
  gives them: a function nested in a function, a class with one method, and a class
  whose only function definition sits inside an \<open>if\<close> statement.
\<close>

definition nested_src :: string where
  "nested_src =
     ''def outer():'' @ [CHR 0x0A] @
     ''    def foo(a, b): bar(); baz()'' @ [CHR 0x0A] @
     ''    foo()'' @ [CHR 0x0A]"

definition nested_tree :: ts_node where
  "nested_tree =
     Node ''module'' 0 55 0 3
       [Node ''function_definition'' 0 54 0 2
          [Node ''def'' 0 3 0 0 [],
           Node ''identifier'' 4 9 0 0 [],
           Node ''parameters'' 9 11 0 0
             [Node ''('' 9 10 0 0 [],
              Node '')'' 10 11 0 0 []],
           Node '':'' 11 12 0 0 [],
           Node ''block'' 17 54 1 2
             [Node ''function_definition'' 17 44 1 1
                [Node ''def'' 17 20 1 1 [],
                 Node ''identifier'' 21 24 1 1 [],
                 Node ''parameters'' 24 30 1 1
                   [Node ''('' 24 25 1 1 [],
                    Node ''identifier'' 25 26 1 1 [],
                    Node '','' 26 27 1 1 [],
                    Node ''identifier'' 28 29 1 1 [],
                    Node '')'' 29 30 1 1 []],
                 Node '':'' 30 31 1 1 [],
                 Node ''block'' 32 44 1 1
                   [Node ''expression_statement'' 32 37 1 1
                      [Node ''call'' 32 37 1 1
                         [Node ''identifier'' 32 35 1 1 [],
                          Node ''argument_list'' 35 37 1 1
                            [Node ''('' 35 36 1 1 [],
                             Node '')'' 36 37 1 1 []]]],
                    Node '';'' 37 38 1 1 [],
                    Node ''expression_statement'' 39 44 1 1
                      [Node ''call'' 39 44 1 1
                         [Node ''identifier'' 39 42 1 1 [],
                          Node ''argument_list'' 42 44 1 1
                            [Node ''('' 42 43 1 1 [],
                             Node '')'' 43 44 1 1 []]]]]],
              Node ''expression_statement'' 49 54 2 2
                [Node ''call'' 49 54 2 2
                   [Node ''identifier'' 49 52 2 2 [],
                    Node ''argument_list'' 52 54 2 2
                      [Node ''('' 52 53 2 2 [],
                       Node '')'' 53 54 2 2 []]]]]]]"

definition dog_src :: string where
  "dog_src =
     ''class Dog(Animal):'' @ [CHR 0x0A] @
     ''    def bark(self): ...'' @ [CHR 0x0A]"

definition dog_tree :: ts_node where
  "dog_tree =
     Node ''module'' 0 43 0 2
       [Node ''class_definition'' 0 42 0 1
          [Node ''class'' 0 5 0 0 [],
           Node ''identifier'' 6 9 0 0 [],
           Node ''argument_list'' 9 17 0 0
             [Node ''('' 9 10 0 0 [],
              Node ''identifier'' 10 16 0 0 [],
              Node '')'' 16 17 0 0 []],
           Node '':'' 17 18 0 0 [],
           Node ''block'' 23 42 1 1
             [Node ''function_definition'' 23 42 1 1
                [Node ''def'' 23 26 1 1 [],
                 Node ''identifier'' 27 31 1 1 [],
                 Node ''parameters'' 31 37 1 1
                   [Node ''('' 31 32 1 1 [],
                    Node ''identifier'' 32 36 1 1 [],
                    Node '')'' 36 37 1 1 []],
                 Node '':'' 37 38 1 1 [],
                 Node ''block'' 39 42 1 1
                   [Node ''expression_statement'' 39 42 1 1
                      [Node ''ellipsis'' 39 42 1 1 []]]]]]]"

definition dog_if_src :: string where
  "dog_if_src =
     ''class Dog(Animal):'' @ [CHR 0x0A] @
     ''    if True:'' @ [CHR 0x0A] @
     ''        def bark(self): ...'' @ [CHR 0x0A]"

definition dog_if_tree :: ts_node where
  "dog_if_tree =
     Node ''module'' 0 60 0 3
       [Node ''class_definition'' 0 59 0 2
          [Node ''class'' 0 5 0 0 [],
           Node ''identifier'' 6 9 0 0 [],
           Node ''argument_list'' 9 17 0 0
             [Node ''('' 9 10 0 0 [],
              Node ''identifier'' 10 16 0 0 [],
              Node '')'' 16 17 0 0 []],
           Node '':'' 17 18 0 0 [],
           Node ''block'' 23 59 1 2
             [Node ''if_statement'' 23 59 1 2
                [Node ''if'' 23 25 1 1 [],
                 Node ''true'' 26 30 1 1 [],
                 Node '':'' 30 31 1 1 [],
                 Node ''block'' 40 59 2 2
                   [Node ''function_definition'' 40 59 2 2
                      [Node ''def'' 40 43 2 2 [],
                       Node ''identifier'' 44 48 2 2 [],
                       Node ''parameters'' 48 54 2 2
                         [Node ''('' 48 49 2 2 [],
                          Node ''identifier'' 49 53 2 2 [],
                          Node '')'' 53 54 2 2 []],
                       Node '':'' 54 55 2 2 [],
                       Node ''block'' 56 59 2 2
                         [Node ''expression_statement'' 56 59 2 2
                            [Node ''ellipsis'' 56 59 2 2 []]]]]]]]]"

definition nested_pd :: parsed_data where
  "nested_pd =
     \<lparr>pd_file_path = ''nested.py'', pd_language = ''python'',
      pd_code = nested_src, pd_root_node = nested_tree\<rparr>"

definition dog_pd :: parsed_data where
  "dog_pd =
     \<lparr>pd_file_path = ''dog.py'', pd_language = ''python'',
      pd_code = dog_src, pd_root_node = dog_tree\<rparr>"

definition dog_if_pd :: parsed_data where
  "dog_if_pd =
     \<lparr>pd_file_path = ''dog_if.py'', pd_language = ''python'',
      pd_code = dog_if_src, pd_root_node = dog_if_tree\<rparr>"

text \<open>
  Two analyses with an entity of the same name: \<open>a.py\<close> is \<open>class Foo: pass\<close> and
  \<open>b.py\<close> is \<open>def Foo(): bar()\<close>.
\<close>

definition class_foo :: analysis where
  "class_foo =
     \<lparr>a_functions = Some [],
      a_classes = Some [\<lparr>ce_type = ''class'', ce_name = ''Foo'', ce_methods = [],
                         ce_bases = [], ce_line_start = 1, ce_line_end = 1\<rparr>],
      a_imports = Some [], a_file_path = Some ''a.py''\<rparr>"

definition function_foo :: analysis where
  "function_foo =
     \<lparr>a_functions = Some [\<lparr>fe_type = ''function'', fe_name = ''Foo'', fe_params = [],
                           fe_line_start = 1, fe_line_end = 1, fe_calls = [''bar'']\<rparr>],
      a_classes = Some [], a_imports = Some [], a_file_path = Some ''b.py''\<rparr>"

text \<open>A third file, \<open>c.py\<close>, that is \<open>def Foo(): baz()\<close>.\<close>

definition other_foo :: analysis where
  "other_foo =
     \<lparr>a_functions = Some [\<lparr>fe_type = ''function'', fe_name = ''Foo'', fe_params = [],
                           fe_line_start = 1, fe_line_end = 1, fe_calls = [''baz'']\<rparr>],
      a_classes = Some [], a_imports = Some [], a_file_path = Some ''c.py''\<rparr>"

text \<open>
  A file that defines the same function twice, \<open>r.py\<close>:
  \<^verbatim>\<open>def f(): pass\<close> / \<^verbatim>\<open>def f(): pass\<close>.
\<close>

definition redefined :: analysis where
  "redefined =
     \<lparr>a_functions = Some [\<lparr>fe_type = ''function'', fe_name = ''f'', fe_params = [],
                           fe_line_start = 1, fe_line_end = 1, fe_calls = []\<rparr>,
                          \<lparr>fe_type = ''function'', fe_name = ''f'', fe_params = [],
                           fe_line_start = 2, fe_line_end = 2, fe_calls = []\<rparr>],
      a_classes = Some [], a_imports = Some [], a_file_path = Some ''r.py''\<rparr>"

text \<open>
  A platform to evaluate \<open>parse_file\<close> on. The suffix is the one \<open>pathlib\<close> gives for a
  POSIX path: the name is the last component that is neither empty nor a single dot
  (so a trailing slash is ignored), and the suffix runs from the last dot of the name,
  when that dot is neither its first nor its last character. Lower case is that of ASCII
  letters, and the file system has no readable file.
\<close>

fun path_parts :: "string \<Rightarrow> string list" where
  "path_parts [] = [[]]"
| "path_parts (c # cs) =
     (if c = CHR ''/'' then [] # path_parts cs
      else (case path_parts cs of [] \<Rightarrow> [[c]] | q # qs \<Rightarrow> (c # q) # qs))"

definition path_name :: "string \<Rightarrow> string" where
  "path_name p =
     (case filter (\<lambda>q. q \<noteq> [] \<and> q \<noteq> ''.'') (path_parts p) of
        [] \<Rightarrow> []
      | q # qs \<Rightarrow> last (q # qs))"

definition posix_suffix :: "string \<Rightarrow> string" where
  "posix_suffix p =
     (let name = path_name p;
          ext = rev (takeWhile (\<lambda>c. c \<noteq> CHR ''.'') (rev name))
      in if CHR ''.'' \<in> set name \<and> ext \<noteq> [] \<and> length ext + 1 < length name
         then CHR ''.'' # ext else [])"

definition ascii_lower :: "char \<Rightarrow> char" where
  "ascii_lower c =
     (let k = (of_char c :: nat) in if 65 \<le> k \<and> k \<le> 90 then char_of (k + 32) else c)"

definition example_platform :: platform where
  "example_platform =
     \<lparr>path_suffix = posix_suffix, str_lower = map ascii_lower, read_text = (\<lambda>p. None)\<rparr>"

definition no_parsers :: parsers where
  "no_parsers = (\<lambda>language. None)"

section \<open>What ingestion does to the lists of nodes and edges\<close>

lemma add_edges_nodes: "g_nodes (add_edges i ty fp ts g) = g_nodes g"
  by (induction ts arbitrary: g) simp_all

lemma add_edges_file_map: "g_file_map (add_edges i ty fp ts g) = g_file_map g"
  by (induction ts arbitrary: g) simp_all

lemma add_edges_edges:
  "g_edges (add_edges i ty fp ts g) =
     g_edges g @ map (\<lambda>t. \<lparr>e_from = i, e_to = t, e_type = ty, e_file = fp\<rparr>) ts"
  by (induction ts arbitrary: g) simp_all

lemma add_functions_nodes:
  "g_nodes (add_functions fp fs g) = g_nodes g @ map (function_node fp) fs"
  by (induction fs arbitrary: g) (simp_all add: add_edges_nodes)

lemma add_functions_edges:
  "g_edges (add_functions fp fs g) = g_edges g @ concat (map (call_edges fp) fs)"
  by (induction fs arbitrary: g) (simp_all add: add_edges_edges call_edges_def)

lemma add_functions_file_map: "g_file_map (add_functions fp fs g) = g_file_map g"
  by (induction fs arbitrary: g) (simp_all add: add_edges_file_map)

lemma add_classes_nodes:
  "g_nodes (add_classes fp cs g) = g_nodes g @ map (class_node fp) cs"
  by (induction cs arbitrary: g) (simp_all add: add_edges_nodes)

lemma add_classes_edges:
  "g_edges (add_classes fp cs g) = g_edges g @ concat (map (inherit_edges fp) cs)"
  by (induction cs arbitrary: g) (simp_all add: add_edges_edges inherit_edges_def)

lemma add_classes_file_map: "g_file_map (add_classes fp cs g) = g_file_map g"
  by (induction cs arbitrary: g) (simp_all add: add_edges_file_map)

lemma add_file_analysis_nodes:
  "g_nodes (add_file_analysis a g) = g_nodes g @ new_nodes a"
  by (simp add: add_file_analysis_def Let_def new_nodes_def add_classes_nodes add_functions_nodes)

lemma add_file_analysis_edges:
  "g_edges (add_file_analysis a g) = g_edges g @ new_edges a"
  by (simp add: add_file_analysis_def Let_def new_edges_def add_classes_edges add_functions_edges)

lemma ingest_all_nodes:
  "g_nodes (ingest_all as g) = g_nodes g @ concat (map new_nodes as)"
  by (induction as arbitrary: g) (simp_all add: add_file_analysis_nodes)

lemma ingest_all_edges:
  "g_edges (ingest_all as g) = g_edges g @ concat (map new_edges as)"
  by (induction as arbitrary: g) (simp_all add: add_file_analysis_edges)

lemma new_nodes_type:
  "n \<in> set (new_nodes a) \<Longrightarrow> n_type n = ''function'' \<or> n_type n = ''class''"
  by (auto simp: new_nodes_def function_node_def class_node_def)

lemma count_by_type:
  "\<forall>n \<in> set ns. n_type n = ''function'' \<or> n_type n = ''class'' \<Longrightarrow>
     length ns = length (filter (\<lambda>n. n_type n = ''function'') ns) +
                 length (filter (\<lambda>n. n_type n = ''class'') ns)"
  by (induction ns) auto

section \<open>The example analyses, evaluated\<close>

lemma function_foo_eval:
  "get_functions function_foo =
     [\<lparr>fe_type = ''function'', fe_name = ''Foo'', fe_params = [],
       fe_line_start = 1, fe_line_end = 1, fe_calls = [''bar'']\<rparr>]"
  "get_classes function_foo = []" "get_file_path function_foo = ''b.py''"
  by (simp_all add: function_foo_def get_functions_def get_classes_def get_file_path_def)

lemma other_foo_eval:
  "get_functions other_foo =
     [\<lparr>fe_type = ''function'', fe_name = ''Foo'', fe_params = [],
       fe_line_start = 1, fe_line_end = 1, fe_calls = [''baz'']\<rparr>]"
  "get_classes other_foo = []" "get_file_path other_foo = ''c.py''"
  by (simp_all add: other_foo_def get_functions_def get_classes_def get_file_path_def)

lemma class_foo_eval:
  "get_functions class_foo = []"
  "get_classes class_foo =
     [\<lparr>ce_type = ''class'', ce_name = ''Foo'', ce_methods = [],
       ce_bases = [], ce_line_start = 1, ce_line_end = 1\<rparr>]"
  "get_file_path class_foo = ''a.py''"
  by (simp_all add: class_foo_def get_functions_def get_classes_def get_file_path_def)

lemma foo_graph_edges:
  "g_edges (ingest_all [class_foo, function_foo] init_graph) =
     [\<lparr>e_from = ''b.py::Foo'', e_to = ''bar'', e_type = ''calls'', e_file = ''b.py''\<rparr>]"
  by (simp add: add_file_analysis_edges init_graph_def new_edges_def function_foo_eval
      class_foo_eval call_edges_def inherit_edges_def make_id_def)

lemma foo_graph_nodes:
  "g_nodes (ingest_all [class_foo, function_foo] init_graph) =
     [class_node ''a.py'' \<lparr>ce_type = ''class'', ce_name = ''Foo'', ce_methods = [],
        ce_bases = [], ce_line_start = 1, ce_line_end = 1\<rparr>,
      function_node ''b.py'' \<lparr>fe_type = ''function'', fe_name = ''Foo'', fe_params = [],
        fe_line_start = 1, fe_line_end = 1, fe_calls = [''bar'']\<rparr>]"
  by (simp add: add_file_analysis_nodes init_graph_def new_nodes_def function_foo_eval
      class_foo_eval)

lemma two_foo_graph_nodes:
  "g_nodes (ingest_all [function_foo, other_foo] init_graph) =
     [function_node ''b.py'' \<lparr>fe_type = ''function'', fe_name = ''Foo'', fe_params = [],
        fe_line_start = 1, fe_line_end = 1, fe_calls = [''bar'']\<rparr>,
      function_node ''c.py'' \<lparr>fe_type = ''function'', fe_name = ''Foo'', fe_params = [],
        fe_line_start = 1, fe_line_end = 1, fe_calls = [''baz'']\<rparr>]"
  by (simp add: add_file_analysis_nodes init_graph_def new_nodes_def function_foo_eval
      other_foo_eval)

lemma redefined_eval:
  "get_functions redefined =
     [\<lparr>fe_type = ''function'', fe_name = ''f'', fe_params = [],
       fe_line_start = 1, fe_line_end = 1, fe_calls = []\<rparr>,
      \<lparr>fe_type = ''function'', fe_name = ''f'', fe_params = [],
       fe_line_start = 2, fe_line_end = 2, fe_calls = []\<rparr>]"
  "get_classes redefined = []" "get_file_path redefined = ''r.py''"
  by (simp_all add: redefined_def get_functions_def get_classes_def get_file_path_def)

lemma twice_graph_ids:
  "map n_id (g_nodes (ingest_all [function_foo, function_foo] init_graph)) =
     [''b.py::Foo'', ''b.py::Foo'']"
  by (simp add: add_file_analysis_nodes init_graph_def new_nodes_def function_foo_eval
      function_node_def make_id_def)

lemma redefined_graph_ids:
  "map n_id (g_nodes (ingest_all [redefined] init_graph)) = [''r.py::f'', ''r.py::f'']"
  by (simp add: add_file_analysis_nodes init_graph_def new_nodes_def redefined_eval
      function_node_def make_id_def)

section \<open>Statistics\<close>

lemma new_nodes_functions:
  "length (filter (\<lambda>n. n_type n = ''function'') (new_nodes a)) = length (get_functions a)"
  by (simp add: new_nodes_def function_node_def class_node_def comp_def)

lemma new_nodes_classes:
  "length (filter (\<lambda>n. n_type n = ''class'') (new_nodes a)) = length (get_classes a)"
  by (simp add: new_nodes_def function_node_def class_node_def comp_def)

lemma graph_functions:
  "length (filter (\<lambda>n. n_type n = ''function'') (concat (map new_nodes as))) =
     sum_list (map (\<lambda>a. length (get_functions a)) as)"
  by (induction as) (simp_all add: new_nodes_functions)

lemma graph_classes:
  "length (filter (\<lambda>n. n_type n = ''class'') (concat (map new_nodes as))) =
     sum_list (map (\<lambda>a. length (get_classes a)) as)"
  by (induction as) (simp_all add: new_nodes_classes)

text \<open>
  C3. In every graph built from the empty graph by ingesting any list of analyses,
  \<open>get_statistics\<close> gives as \<open>total_nodes\<close> the number of nodes of the graph, as
  \<open>functions\<close> the number of its nodes of type \<open>function\<close>, which is the number of
  function entities ingested, and as \<open>classes\<close> the number of its nodes of type \<open>class\<close>,
  which is the number of class entities ingested. \<open>total_nodes\<close> is the sum of the two,
  because every node of the graph has exactly one of the two types and so is counted
  exactly once.
\<close>

theorem statistics_total_nodes:
  "total_nodes (get_statistics (ingest_all as init_graph)) =
     length (g_nodes (ingest_all as init_graph))
   \<and> st_functions (get_statistics (ingest_all as init_graph)) =
       length (filter (\<lambda>n. n_type n = ''function'') (g_nodes (ingest_all as init_graph)))
   \<and> st_classes (get_statistics (ingest_all as init_graph)) =
       length (filter (\<lambda>n. n_type n = ''class'') (g_nodes (ingest_all as init_graph)))
   \<and> st_functions (get_statistics (ingest_all as init_graph)) =
       sum_list (map (\<lambda>a. length (get_functions a)) as)
   \<and> st_classes (get_statistics (ingest_all as init_graph)) =
       sum_list (map (\<lambda>a. length (get_classes a)) as)
   \<and> total_nodes (get_statistics (ingest_all as init_graph)) =
       st_functions (get_statistics (ingest_all as init_graph)) +
       st_classes (get_statistics (ingest_all as init_graph))
   \<and> (\<forall>n \<in> set (g_nodes (ingest_all as init_graph)).
         (n_type n = ''function'' \<or> n_type n = ''class'')
         \<and> \<not> (n_type n = ''function'' \<and> n_type n = ''class''))"
proof -
  let ?g = "ingest_all as init_graph"
  have types: "\<forall>n \<in> set (g_nodes ?g). n_type n = ''function'' \<or> n_type n = ''class''"
    by (auto simp: ingest_all_nodes init_graph_def dest: new_nodes_type)
  have total: "total_nodes (get_statistics ?g) = length (g_nodes ?g)"
    by (simp add: get_statistics_def)
  have fs: "st_functions (get_statistics ?g) =
      length (filter (\<lambda>n. n_type n = ''function'') (g_nodes ?g))"
    by (simp add: get_statistics_def)
  have cs: "st_classes (get_statistics ?g) =
      length (filter (\<lambda>n. n_type n = ''class'') (g_nodes ?g))"
    by (simp add: get_statistics_def)
  have fsum: "st_functions (get_statistics ?g) =
      sum_list (map (\<lambda>a. length (get_functions a)) as)"
    by (simp add: get_statistics_def ingest_all_nodes init_graph_def graph_functions)
  have csum: "st_classes (get_statistics ?g) =
      sum_list (map (\<lambda>a. length (get_classes a)) as)"
    by (simp add: get_statistics_def ingest_all_nodes init_graph_def graph_classes)
  have sum: "total_nodes (get_statistics ?g) =
      st_functions (get_statistics ?g) + st_classes (get_statistics ?g)"
    using count_by_type [OF types] by (simp add: get_statistics_def)
  have once: "\<forall>n \<in> set (g_nodes ?g).
         (n_type n = ''function'' \<or> n_type n = ''class'')
         \<and> \<not> (n_type n = ''function'' \<and> n_type n = ''class'')"
    using types by auto
  from total fs cs fsum csum sum once show ?thesis
    by blast
qed

theorem statistics_total_nodes_witness:
  "total_nodes (get_statistics (ingest_all [class_foo, function_foo, other_foo] init_graph)) = 3
   \<and> st_functions (get_statistics (ingest_all [class_foo, function_foo, other_foo] init_graph)) = 2
   \<and> st_classes (get_statistics (ingest_all [class_foo, function_foo, other_foo] init_graph)) = 1
   \<and> length (g_nodes (ingest_all [class_foo, function_foo, other_foo] init_graph)) = 3"
  using statistics_total_nodes [of "[class_foo, function_foo, other_foo]"]
  by (simp add: class_foo_eval function_foo_eval other_foo_eval del: ingest_all.simps)

section \<open>Callers\<close>

lemma callers_loop_eq:
  "callers_loop es x acc =
     acc @ map e_from (filter (\<lambda>e. e_type e = ''calls'' \<and> e_to e = x) es)"
  by (induction es arbitrary: acc) simp_all

lemma call_edge_in_new_edges:
  assumes "f \<in> set (get_functions a)" and "t \<in> set (fe_calls f)"
  shows "\<lparr>e_from = make_id (get_file_path a) (fe_name f), e_to = t,
           e_type = ''calls'', e_file = get_file_path a\<rparr> \<in> set (new_edges a)"
  using assms by (auto simp: new_edges_def call_edges_def)

text \<open>
  C4. For every graph and every name \<open>x\<close>, \<open>find_callers\<close> returns exactly the \<open>from\<close>
  ids of the edges whose type is \<open>calls\<close> and whose \<open>to\<close> is \<open>x\<close>, in the order of the
  edges. Hence, in the graph built from any list of analyses, for every function entity
  of an ingested analysis and every target in its call list, the id of the entity's node
  is among the callers of that target.
\<close>

theorem find_callers_exact:
  "find_callers g x =
     map e_from (filter (\<lambda>e. e_type e = ''calls'' \<and> e_to e = x) (g_edges g))
   \<and> (\<forall>a \<in> set as. \<forall>f \<in> set (get_functions a). \<forall>target \<in> set (fe_calls f).
         make_id (get_file_path a) (fe_name f)
           \<in> set (find_callers (ingest_all as init_graph) target))"
proof
  show "find_callers g x =
     map e_from (filter (\<lambda>e. e_type e = ''calls'' \<and> e_to e = x) (g_edges g))"
    by (simp add: find_callers_def callers_loop_eq)
next
  show "\<forall>a \<in> set as. \<forall>f \<in> set (get_functions a). \<forall>target \<in> set (fe_calls f).
         make_id (get_file_path a) (fe_name f)
           \<in> set (find_callers (ingest_all as init_graph) target)"
  proof (intro ballI)
    fix a f target
    assume a: "a \<in> set as" and f: "f \<in> set (get_functions a)"
      and t: "target \<in> set (fe_calls f)"
    let ?e = "\<lparr>e_from = make_id (get_file_path a) (fe_name f), e_to = target,
                e_type = ''calls'', e_file = get_file_path a\<rparr>"
    have "?e \<in> set (new_edges a)"
      using f t by (rule call_edge_in_new_edges)
    with a have "?e \<in> set (g_edges (ingest_all as init_graph))"
      by (auto simp: ingest_all_edges)
    then have "e_from ?e \<in> set (find_callers (ingest_all as init_graph) target)"
      unfolding find_callers_def callers_loop_eq by (simp add: image_iff) force
    then show "make_id (get_file_path a) (fe_name f)
           \<in> set (find_callers (ingest_all as init_graph) target)"
      by simp
  qed
qed

theorem find_callers_exact_witness:
  "find_callers (ingest_all [class_foo, function_foo] init_graph) ''bar'' = [''b.py::Foo'']
   \<and> ''b.py::Foo'' \<in> set (find_callers (ingest_all [class_foo, function_foo] init_graph) ''bar'')"
  using find_callers_exact [of "ingest_all [class_foo, function_foo] init_graph" "''bar''"
      "[class_foo, function_foo]"]
  by (simp add: foo_graph_edges function_foo_eval class_foo_eval make_id_def
      del: ingest_all.simps)

section \<open>Ingesting a file again\<close>

text \<open>
  C5. Ingesting the same analysis twice appends its nodes and its edges twice: the second
  ingestion replaces nothing. When the analysis has at least one entity, the graph after
  the second ingestion differs from the graph after the first, and its node ids are no
  longer pairwise distinct.
\<close>

theorem reingestion_appends:
  "g_nodes (add_file_analysis a (add_file_analysis a g)) = g_nodes g @ new_nodes a @ new_nodes a
   \<and> g_edges (add_file_analysis a (add_file_analysis a g)) = g_edges g @ new_edges a @ new_edges a
   \<and> (new_nodes a \<noteq> [] \<longrightarrow>
        add_file_analysis a (add_file_analysis a g) \<noteq> add_file_analysis a g
        \<and> \<not> distinct (map n_id (g_nodes (add_file_analysis a (add_file_analysis a g)))))"
proof (intro conjI impI)
  show "g_nodes (add_file_analysis a (add_file_analysis a g)) =
          g_nodes g @ new_nodes a @ new_nodes a"
    by (simp add: add_file_analysis_nodes)
  show "g_edges (add_file_analysis a (add_file_analysis a g)) =
          g_edges g @ new_edges a @ new_edges a"
    by (simp add: add_file_analysis_edges)
next
  assume ne: "new_nodes a \<noteq> []"
  have "g_nodes (add_file_analysis a (add_file_analysis a g)) \<noteq> g_nodes (add_file_analysis a g)"
    using ne by (simp add: add_file_analysis_nodes)
  then show "add_file_analysis a (add_file_analysis a g) \<noteq> add_file_analysis a g"
    by auto
next
  assume ne: "new_nodes a \<noteq> []"
  then obtain n where "n \<in> set (new_nodes a)"
    by (cases "new_nodes a") auto
  then have "\<not> distinct (map n_id (new_nodes a) @ map n_id (new_nodes a))"
    by auto
  then show "\<not> distinct (map n_id (g_nodes (add_file_analysis a (add_file_analysis a g))))"
    by (simp add: add_file_analysis_nodes)
qed

theorem reingestion_appends_witness:
  "g_nodes (add_file_analysis function_foo (add_file_analysis function_foo init_graph)) =
     new_nodes function_foo @ new_nodes function_foo
   \<and> new_nodes function_foo \<noteq> []
   \<and> map n_id (g_nodes (add_file_analysis function_foo (add_file_analysis function_foo init_graph)))
       = [''b.py::Foo'', ''b.py::Foo'']
   \<and> \<not> distinct (map n_id
        (g_nodes (add_file_analysis function_foo (add_file_analysis function_foo init_graph))))"
  using reingestion_appends [of function_foo init_graph]
  by (simp add: init_graph_def new_nodes_def function_foo_eval function_node_def make_id_def)

section \<open>Callees\<close>

lemma init_graph_nodes: "g_nodes init_graph = []"
  by (simp add: init_graph_def)

lemma callees_loop_first:
  "\<forall>m \<in> set pre. n_name m \<noteq> x \<Longrightarrow> n_name n = x \<Longrightarrow>
     callees_loop (pre @ n # post) x acc = (case n_calls n of None \<Rightarrow> [] | Some cs \<Rightarrow> cs)"
  by (induction pre) simp_all

lemma callees_loop_none:
  "\<forall>m \<in> set ns. n_name m \<noteq> x \<Longrightarrow> callees_loop ns x acc = acc"
  by (induction ns) simp_all

lemma class_node_no_calls:
  "n \<in> set (g_nodes (ingest_all as init_graph)) \<Longrightarrow> n_type n = ''class'' \<Longrightarrow> n_calls n = None"
  by (auto simp: ingest_all_nodes init_graph_def new_nodes_def function_node_def class_node_def)

text \<open>
  C6. \<open>find_callees g x\<close> is the call list of the first node of \<open>g\<close>, in insertion order,
  whose name is \<open>x\<close>, whatever nodes follow it. In particular, when a graph with no node
  named \<open>x\<close> ingests an analysis whose first function named \<open>x\<close> is \<open>f\<close>, the answer is
  the call list of \<open>f\<close>, whatever the analyses ingested afterwards define under that
  name.
\<close>

theorem find_callees_first:
  "(g_nodes g = pre @ n # post \<and> (\<forall>m \<in> set pre. n_name m \<noteq> x) \<and> n_name n = x \<longrightarrow>
      find_callees g x = (case n_calls n of None \<Rightarrow> [] | Some cs \<Rightarrow> cs))
   \<and> ((\<forall>m \<in> set (g_nodes g0). n_name m \<noteq> x) \<and> get_functions a = fs1 @ f # fs2
        \<and> (\<forall>h \<in> set fs1. fe_name h \<noteq> x) \<and> fe_name f = x \<longrightarrow>
      find_callees (ingest_all (a # rest) g0) x = fe_calls f)"
proof (intro conjI impI)
  assume "g_nodes g = pre @ n # post \<and> (\<forall>m \<in> set pre. n_name m \<noteq> x) \<and> n_name n = x"
  then show "find_callees g x = (case n_calls n of None \<Rightarrow> [] | Some cs \<Rightarrow> cs)"
    by (simp add: find_callees_def callees_loop_first)
next
  assume h: "(\<forall>m \<in> set (g_nodes g0). n_name m \<noteq> x) \<and> get_functions a = fs1 @ f # fs2
        \<and> (\<forall>h \<in> set fs1. fe_name h \<noteq> x) \<and> fe_name f = x"
  let ?fp = "get_file_path a"
  let ?pre = "g_nodes g0 @ map (function_node ?fp) fs1"
  let ?post = "map (function_node ?fp) fs2 @ map (class_node ?fp) (get_classes a)
                 @ concat (map new_nodes rest)"
  have nodes: "g_nodes (ingest_all (a # rest) g0) = ?pre @ function_node ?fp f # ?post"
    using h by (simp add: ingest_all_nodes add_file_analysis_nodes new_nodes_def)
  have pre: "\<forall>m \<in> set ?pre. n_name m \<noteq> x"
    using h by (auto simp: function_node_def)
  have "n_name (function_node ?fp f) = x"
    using h by (simp add: function_node_def)
  from callees_loop_first [OF pre this]
  show "find_callees (ingest_all (a # rest) g0) x = fe_calls f"
    unfolding find_callees_def nodes by (simp add: function_node_def)
qed

theorem find_callees_first_witness:
  "find_callees (ingest_all [function_foo, other_foo] init_graph) ''Foo'' = [''bar'']
   \<and> n_calls (g_nodes (ingest_all [function_foo, other_foo] init_graph) ! 1) = Some [''baz'']"
  using find_callees_first [of "ingest_all [function_foo, other_foo] init_graph" "[]"
      "function_node ''b.py'' \<lparr>fe_type = ''function'', fe_name = ''Foo'', fe_params = [],
        fe_line_start = 1, fe_line_end = 1, fe_calls = [''bar'']\<rparr>"
      "[function_node ''c.py'' \<lparr>fe_type = ''function'', fe_name = ''Foo'', fe_params = [],
        fe_line_start = 1, fe_line_end = 1, fe_calls = [''baz'']\<rparr>]"
      "''Foo''" init_graph function_foo "[]"
      "\<lparr>fe_type = ''function'', fe_name = ''Foo'', fe_params = [],
       fe_line_start = 1, fe_line_end = 1, fe_calls = [''bar'']\<rparr>" "[]" "[other_foo]"]
  by (simp add: two_foo_graph_nodes function_foo_eval function_node_def init_graph_nodes
      del: ingest_all.simps)

text \<open>
  C10. \<open>find_callees g x\<close> is the empty list when no node of \<open>g\<close> has the name \<open>x\<close>. It is
  also empty when, in a graph built by ingestion, the first node named \<open>x\<close> is a class
  node, whatever follows it: a class node has no \<open>calls\<close> key.
\<close>

theorem find_callees_empty:
  "((\<forall>m \<in> set (g_nodes g). n_name m \<noteq> x) \<longrightarrow> find_callees g x = [])
   \<and> (g_nodes (ingest_all as init_graph) = pre @ n # post
        \<and> (\<forall>m \<in> set pre. n_name m \<noteq> x) \<and> n_name n = x \<and> n_type n = ''class'' \<longrightarrow>
      find_callees (ingest_all as init_graph) x = [])"
proof (intro conjI impI)
  assume "\<forall>m \<in> set (g_nodes g). n_name m \<noteq> x"
  then show "find_callees g x = []"
    by (simp add: find_callees_def callees_loop_none)
next
  assume h: "g_nodes (ingest_all as init_graph) = pre @ n # post
        \<and> (\<forall>m \<in> set pre. n_name m \<noteq> x) \<and> n_name n = x \<and> n_type n = ''class''"
  then have "n \<in> set (g_nodes (ingest_all as init_graph))"
    by simp
  with h have "n_calls n = None"
    by (blast intro: class_node_no_calls)
  with h show "find_callees (ingest_all as init_graph) x = []"
    by (simp add: find_callees_def callees_loop_first)
qed

theorem find_callees_empty_witness:
  "find_callees (ingest_all [class_foo, function_foo] init_graph) ''Bar'' = []
   \<and> find_callees (ingest_all [class_foo, function_foo] init_graph) ''Foo'' = []
   \<and> n_calls (g_nodes (ingest_all [class_foo, function_foo] init_graph) ! 1) = Some [''bar'']
   \<and> n_name (g_nodes (ingest_all [class_foo, function_foo] init_graph) ! 1) = ''Foo''"
  using find_callees_empty [of "ingest_all [class_foo, function_foo] init_graph" "''Bar''"
      "[class_foo, function_foo]" "[]"
      "class_node ''a.py'' \<lparr>ce_type = ''class'', ce_name = ''Foo'', ce_methods = [],
        ce_bases = [], ce_line_start = 1, ce_line_end = 1\<rparr>"
      "[function_node ''b.py'' \<lparr>fe_type = ''function'', fe_name = ''Foo'', fe_params = [],
        fe_line_start = 1, fe_line_end = 1, fe_calls = [''bar'']\<rparr>]"]
    find_callees_empty [of "ingest_all [class_foo, function_foo] init_graph" "''Foo''"
      "[class_foo, function_foo]" "[]"
      "class_node ''a.py'' \<lparr>ce_type = ''class'', ce_name = ''Foo'', ce_methods = [],
        ce_bases = [], ce_line_start = 1, ce_line_end = 1\<rparr>"
      "[function_node ''b.py'' \<lparr>fe_type = ''function'', fe_name = ''Foo'', fe_params = [],
        fe_line_start = 1, fe_line_end = 1, fe_calls = [''bar'']\<rparr>]"]
  by (simp add: foo_graph_nodes class_node_def function_node_def del: ingest_all.simps)

section \<open>Node ids\<close>

lemma split_at_last:
  assumes "xs @ c # ys = xs' @ c # ys'" and "c \<notin> set ys" and "c \<notin> set ys'"
  shows "xs = xs' \<and> ys = ys'"
proof -
  from assms(1) have "rev (xs @ c # ys) = rev (xs' @ c # ys')"
    by simp
  then have eq: "rev ys @ c # rev xs = rev ys' @ c # rev xs'"
    by simp
  have "takeWhile (\<lambda>x. x \<noteq> c) (rev ys @ c # rev xs) = rev ys"
    using assms(2) by (auto simp: takeWhile_tail)
  moreover have "takeWhile (\<lambda>x. x \<noteq> c) (rev ys' @ c # rev xs') = rev ys'"
    using assms(3) by (auto simp: takeWhile_tail)
  ultimately have "rev ys = rev ys'"
    using eq by simp
  then have "ys = ys'" by simp
  with assms(1) show ?thesis by simp
qed

lemma make_id_inj:
  assumes "make_id p1 n1 = make_id p2 n2"
    and "CHR '':'' \<notin> set n1" and "CHR '':'' \<notin> set n2"
  shows "p1 = p2 \<and> n1 = n2"
proof -
  from assms(1) have "(p1 @ '':'') @ CHR '':'' # n1 = (p2 @ '':'') @ CHR '':'' # n2"
    by (simp add: make_id_def)
  from split_at_last [OF this assms(2) assms(3)] show ?thesis
    by simp
qed

lemma new_nodes_ids:
  "map n_id (new_nodes a) = map (\<lambda>(p, n). make_id p n) (entity_keys a)"
  by (simp add: new_nodes_def entity_keys_def entity_names_def function_node_def
      class_node_def comp_def)

lemma graph_ids:
  "map n_id (g_nodes (ingest_all as init_graph)) =
     map (\<lambda>(p, n). make_id p n) (concat (map entity_keys as))"
  by (simp add: ingest_all_nodes init_graph_def map_concat comp_def new_nodes_ids)

lemma shared_key_repeats_id:
  assumes "\<not> distinct (concat (map entity_keys as))"
  shows "\<not> distinct (map n_id (g_nodes (ingest_all as init_graph)))"
  using assms by (simp add: graph_ids distinct_map)

lemma entity_keys_distinct:
  "distinct (entity_keys a) = distinct (entity_names a)"
  by (simp add: entity_keys_def distinct_map inj_on_def)

text \<open>
  C1, as the code has it. Two entities of the same name in files of different paths get
  different ids. The ids of a graph built by ingestion are pairwise distinct when no two
  ingested entities have both the same file path and the same name, and no entity name
  contains a colon. Conversely, whenever two ingested entities have the same file path
  and the same name, two nodes of the graph have the same id, since nothing removes or
  merges a node: so it is when an analysis with at least one entity is ingested more
  than once, and when one ingested analysis has two entities of the same name.
\<close>

theorem node_ids_distinct:
  "(p1 \<noteq> p2 \<longrightarrow> make_id p1 name \<noteq> make_id p2 name)
   \<and> (distinct (concat (map entity_keys as))
        \<and> (\<forall>a \<in> set as. \<forall>n \<in> set (entity_names a). CHR '':'' \<notin> set n) \<longrightarrow>
      distinct (map n_id (g_nodes (ingest_all as init_graph))))
   \<and> (\<not> distinct (concat (map entity_keys bs)) \<longrightarrow>
      \<not> distinct (map n_id (g_nodes (ingest_all bs init_graph))))
   \<and> (entity_names r \<noteq> [] \<longrightarrow>
      \<not> distinct (map n_id (g_nodes (ingest_all (pre @ r # mid @ r # post) init_graph))))
   \<and> (c \<in> set cs \<and> \<not> distinct (entity_names c) \<longrightarrow>
      \<not> distinct (map n_id (g_nodes (ingest_all cs init_graph))))"
proof (intro conjI impI)
  assume "p1 \<noteq> p2"
  then show "make_id p1 name \<noteq> make_id p2 name"
    by (simp add: make_id_def)
next
  assume h: "distinct (concat (map entity_keys as))
        \<and> (\<forall>a \<in> set as. \<forall>n \<in> set (entity_names a). CHR '':'' \<notin> set n)"
  have "inj_on (\<lambda>(p, n). make_id p n) (set (concat (map entity_keys as)))"
  proof (rule inj_onI)
    fix k1 k2
    assume k1: "k1 \<in> set (concat (map entity_keys as))"
      and k2: "k2 \<in> set (concat (map entity_keys as))"
      and eq: "(case k1 of (p, n) \<Rightarrow> make_id p n) = (case k2 of (p, n) \<Rightarrow> make_id p n)"
    from k1 h have c1: "CHR '':'' \<notin> set (snd k1)"
      by (auto simp: entity_keys_def)
    from k2 h have c2: "CHR '':'' \<notin> set (snd k2)"
      by (auto simp: entity_keys_def)
    from eq have "make_id (fst k1) (snd k1) = make_id (fst k2) (snd k2)"
      by (simp add: case_prod_beta)
    from make_id_inj [OF this c1 c2] show "k1 = k2"
      by (simp add: prod_eq_iff)
  qed
  with h show "distinct (map n_id (g_nodes (ingest_all as init_graph)))"
    by (simp add: graph_ids distinct_map)
next
  assume "\<not> distinct (concat (map entity_keys bs))"
  then show "\<not> distinct (map n_id (g_nodes (ingest_all bs init_graph)))"
    by (rule shared_key_repeats_id)
next
  assume "entity_names r \<noteq> []"
  then obtain k where "k \<in> set (entity_keys r)"
    by (cases "entity_names r") (auto simp: entity_keys_def)
  then have "\<not> distinct (concat (map entity_keys (pre @ r # mid @ r # post)))"
    by auto
  then show "\<not> distinct (map n_id (g_nodes (ingest_all (pre @ r # mid @ r # post) init_graph)))"
    by (rule shared_key_repeats_id)
next
  assume h: "c \<in> set cs \<and> \<not> distinct (entity_names c)"
  then have "\<not> distinct (entity_keys c)"
    by (simp add: entity_keys_distinct)
  with h have "\<not> distinct (concat (map entity_keys cs))"
    by (auto simp: distinct_concat_iff)
  then show "\<not> distinct (map n_id (g_nodes (ingest_all cs init_graph)))"
    by (rule shared_key_repeats_id)
qed

theorem node_ids_distinct_witness:
  "make_id ''a.py'' ''Foo'' \<noteq> make_id ''b.py'' ''Foo''
   \<and> map n_id (g_nodes (ingest_all [class_foo, function_foo] init_graph)) =
       [''a.py::Foo'', ''b.py::Foo'']
   \<and> distinct (map n_id (g_nodes (ingest_all [class_foo, function_foo] init_graph)))
   \<and> \<not> distinct (map n_id (g_nodes (ingest_all [function_foo, function_foo] init_graph)))
   \<and> \<not> distinct (map n_id (g_nodes (ingest_all [redefined] init_graph)))"
  using node_ids_distinct [of "''a.py''" "''b.py''" "''Foo''" "[class_foo, function_foo]"
      "[function_foo, function_foo]" function_foo "[]" "[]" "[]" redefined "[redefined]"]
  by (simp add: entity_keys_def entity_names_def class_foo_eval function_foo_eval redefined_eval
      foo_graph_nodes class_node_def function_node_def make_id_def del: ingest_all.simps)

text \<open>
  The analysis of \<open>b.py\<close> ingested twice gives two nodes with the id \<open>b.py::Foo\<close>; the
  analysis of \<open>r.py\<close>, which defines \<open>f\<close> twice, ingested once gives two nodes with the
  id \<open>r.py::f\<close>.
\<close>

theorem node_ids_not_unique:
  "\<not> distinct (map n_id (g_nodes (ingest_all [function_foo, function_foo] init_graph)))
   \<and> \<not> distinct (map n_id (g_nodes (ingest_all [redefined] init_graph)))"
  by (simp add: twice_graph_ids redefined_graph_ids del: ingest_all.simps)

section \<open>Files in a language without a parser\<close>

lemma ext_map_Some:
  "ext_map e = Some l \<Longrightarrow> e \<in> {''.py'', ''.js'', ''.ts'', ''.jsx'', ''.jac''}"
  by (auto simp: ext_map_def split: if_splits)

lemma example_detect:
  "str_lower example_platform (path_suffix example_platform ''notes.txt'') = ''.txt''"
  "detect_language example_platform ''src/Main.PY'' = Some ''python''"
  "no_parsers ''python'' = None"
  by code_simp+

text \<open>
  C8. When the lower-cased suffix of the path is none of the five extensions of the
  mapping, or the language it maps to has no parser in \<open>self.parsers\<close>, \<open>parse_file\<close>
  returns \<open>None\<close>: the guard returns before anything that can raise is run.
\<close>

theorem parse_file_unsupported:
  "str_lower pf (path_suffix pf file_path) \<notin> {''.py'', ''.js'', ''.ts'', ''.jsx'', ''.jac''}
   \<or> (\<exists>language. detect_language pf file_path = Some language \<and> ps language = None)
   \<Longrightarrow> parse_file pf ps file_path = None"
  by (auto simp: parse_file_def detect_language_def dest: ext_map_Some split: option.splits)

theorem parse_file_unsupported_witness:
  "parse_file example_platform no_parsers ''notes.txt'' = None
   \<and> parse_file example_platform no_parsers ''src/Main.PY'' = None"
  using parse_file_unsupported [of example_platform "''notes.txt''" no_parsers]
    parse_file_unsupported [of example_platform "''src/Main.PY''" no_parsers]
  by (simp add: example_detect)

section \<open>The traversal\<close>

lemma traverse_node_functions:
  "an_functions (traverse_node n code s) =
     an_functions s @ map (\<lambda>m. function_info m code)
       (filter (\<lambda>m. ntype m = ''function_definition'') (subnodes n))"
  "an_functions (traverse_nodes ns code s) =
     an_functions s @ map (\<lambda>m. function_info m code)
       (filter (\<lambda>m. ntype m = ''function_definition'') (subnodes_list ns))"
  by (induction n code s and ns code s rule: traverse_node_traverse_nodes.induct)
    (simp_all add: visit_def extract_function_def extract_class_def extract_import_def)

lemma traverse_node_classes:
  "an_classes (traverse_node n code s) =
     an_classes s @ map (\<lambda>m. class_info m code)
       (filter (\<lambda>m. ntype m = ''class_definition'') (subnodes n))"
  "an_classes (traverse_nodes ns code s) =
     an_classes s @ map (\<lambda>m. class_info m code)
       (filter (\<lambda>m. ntype m = ''class_definition'') (subnodes_list ns))"
  by (induction n code s and ns code s rule: traverse_node_traverse_nodes.induct)
    (simp_all add: visit_def extract_function_def extract_class_def extract_import_def)

text \<open>The calls recorded for a node are those of all the nodes below it, in tree order.\<close>

lemma call_name_acc: "call_name cs code calls = calls @ call_name cs code []"
  by (induction cs) simp_all

lemma traverse_subnodes:
  "traverse code n calls = calls @ concat (map (node_calls code) (subnodes n))"
  "traverse_children code ns calls = calls @ concat (map (node_calls code) (subnodes_list ns))"
proof (induction code n calls and code ns calls rule: traverse_traverse_children.induct)
  case (1 code t sb eb sr er cs calls)
  then show ?case
    using call_name_acc [of cs code calls] by (simp add: node_calls_def)
qed simp_all

lemma find_function_calls_subnodes:
  "find_function_calls n code = concat (map (node_calls code) (subnodes n))"
  by (simp add: find_function_calls_def traverse_subnodes)

section \<open>A function nested in a function\<close>

text \<open>
  C2, as the code has it. For the file
  \<^verbatim>\<open>def outer():\<close> / \<^verbatim>\<open>    def foo(a, b): bar(); baz()\<close> / \<^verbatim>\<open>    foo()\<close>
  extraction yields exactly two function records, \<open>outer\<close> and then \<open>foo\<close>. The call list
  of \<open>foo\<close> is \<open>bar, baz\<close>. The call list of \<open>outer\<close> is \<open>bar, baz, foo\<close>: the scan for
  calls covers the whole subtree of \<open>outer\<close>, the body of the nested function included,
  in source order and with no deduplication.
\<close>

theorem nested_functions:
  "a_functions (analyze (Some nested_pd)) =
     Some [\<lparr>fe_type = ''function'', fe_name = ''outer'', fe_params = [],
             fe_line_start = 1, fe_line_end = 3, fe_calls = [''bar'', ''baz'', ''foo'']\<rparr>,
           \<lparr>fe_type = ''function'', fe_name = ''foo'', fe_params = [''a'', ''b''],
             fe_line_start = 2, fe_line_end = 2, fe_calls = [''bar'', ''baz'']\<rparr>]"
  by code_simp

text \<open>The call list of \<open>outer\<close> is not the one-element list \<open>foo\<close>.\<close>

theorem nested_outer_calls_not_foo:
  "map fe_name (get_functions (analyze (Some nested_pd))) = [''outer'', ''foo'']
   \<and> fe_calls (hd (get_functions (analyze (Some nested_pd)))) \<noteq> [''foo'']"
  by code_simp

section \<open>The methods of a class\<close>

lemma block_methods_eq:
  "block_methods stmts code acc =
     acc @ map (method_record code) (filter (\<lambda>s. ntype s = ''function_definition'') stmts)"
  by (induction stmts arbitrary: acc) (simp_all add: method_record_def)

lemma class_methods_eq:
  "class_methods cs code acc =
     acc @ concat (map (\<lambda>b. map (method_record code)
                               (filter (\<lambda>s. ntype s = ''function_definition'') (children b)))
                       (filter (\<lambda>c. ntype c = ''block'') cs))"
  by (induction cs arbitrary: acc) (simp_all add: block_methods_eq)

lemma dog_classes:
  "a_classes (analyze (Some dog_pd)) =
     Some [\<lparr>ce_type = ''class'', ce_name = ''Dog'',
             ce_methods = [\<lparr>m_name = ''bark'', m_line = 2\<rparr>],
             ce_bases = [''Animal''], ce_line_start = 1, ce_line_end = 2\<rparr>]"
  by code_simp

lemma dog_if_result:
  "analyze (Some dog_if_pd) =
     \<lparr>a_functions = Some [\<lparr>fe_type = ''function'', fe_name = ''bark'', fe_params = [''self''],
                           fe_line_start = 3, fe_line_end = 3, fe_calls = []\<rparr>],
      a_classes = Some [\<lparr>ce_type = ''class'', ce_name = ''Dog'', ce_methods = [],
                         ce_bases = [''Animal''], ce_line_start = 1, ce_line_end = 3\<rparr>],
      a_imports = Some [], a_file_path = Some ''dog_if.py''\<rparr>"
  by code_simp

text \<open>
  C7. The file \<^verbatim>\<open>class Dog(Animal):\<close> / \<^verbatim>\<open>    def bark(self): ...\<close> yields exactly one
  class record, with the bases \<open>Animal\<close> and the one method record \<open>bark\<close>. For every
  class node, the methods are the function definitions that are children of a \<open>block\<close>
  child of the node, and nothing else. So when \<open>bark\<close> is defined inside an \<open>if\<close>
  statement of the class body, the class record has no method, although the traversal
  still records \<open>bark\<close> as a function.
\<close>

theorem class_methods_direct:
  "a_classes (analyze (Some dog_pd)) =
     Some [\<lparr>ce_type = ''class'', ce_name = ''Dog'',
             ce_methods = [\<lparr>m_name = ''bark'', m_line = 2\<rparr>],
             ce_bases = [''Animal''], ce_line_start = 1, ce_line_end = 2\<rparr>]
   \<and> extract_methods cls code =
       concat (map (\<lambda>b. map (method_record code)
                            (filter (\<lambda>s. ntype s = ''function_definition'') (children b)))
                   (filter (\<lambda>c. ntype c = ''block'') (children cls)))
   \<and> analyze (Some dog_if_pd) =
     \<lparr>a_functions = Some [\<lparr>fe_type = ''function'', fe_name = ''bark'', fe_params = [''self''],
                           fe_line_start = 3, fe_line_end = 3, fe_calls = []\<rparr>],
      a_classes = Some [\<lparr>ce_type = ''class'', ce_name = ''Dog'', ce_methods = [],
                         ce_bases = [''Animal''], ce_line_start = 1, ce_line_end = 3\<rparr>],
      a_imports = Some [], a_file_path = Some ''dog_if.py''\<rparr>"
  by (simp add: dog_classes dog_if_result extract_methods_def class_methods_eq)

end
